theory Spec2Isabelle
  imports Complex_Main "HOL-Library.Char_ord" "HOL-Library.List_Lexorder" "HOL-Library.Multiset"
begin

section \<open>Values of the host language\<close>

text \<open>
  Strings are byte sequences (the UTF-8 encoding of the program's text); SQLite compares
  TEXT columns bytewise (BINARY collation), which is the lexicographic order on
  \<open>string\<close> used below.

  A JavaScript number is a double. Finite values other than negative zero are carried as
  reals; the four values that \<open>JSON.stringify\<close> does not write as they are
  (\<open>-0\<close>, \<open>NaN\<close>, \<open>Infinity\<close>, \<open>-Infinity\<close>) are constructors of their own.
\<close>

datatype jsnum = Finite real | NegZero | NaN | PosInfinity | NegInfinity

text \<open>
  What a \<open>Record<string, any>\<close> can hold, as far as the service builds it: the
  values of an object literal or of a parsed request body. An object is the list of its
  own properties in enumeration order. \<open>JUndefined\<close> is the value of a property such
  as \<open>context: request.context\<close> when the request has no context.
\<close>

datatype jsvalue =
    JUndefined
  | JNull
  | JBool bool
  | JNumber jsnum
  | JString string
  | JArray "jsvalue list"
  | JObject "(string \<times> jsvalue) list"

text \<open>JavaScript truthiness (\<open>ToBoolean\<close>), used by \<open>x ? a : b\<close>, \<open>!x\<close> and \<open>x || y\<close>.\<close>

fun truthy :: "jsvalue \<Rightarrow> bool" where
  "truthy JUndefined = False"
| "truthy JNull = False"
| "truthy (JBool b) = b"
| "truthy (JNumber (Finite r)) = (r \<noteq> 0)"
| "truthy (JNumber NegZero) = False"
| "truthy (JNumber NaN) = False"
| "truthy (JNumber PosInfinity) = True"
| "truthy (JNumber NegInfinity) = True"
| "truthy (JString s) = (s \<noteq> [])"
| "truthy (JArray vs) = True"
| "truthy (JObject kvs) = True"

subsection \<open>JSON documents\<close>

text \<open>
  The \<open>metadata\<close> column holds the text written by \<open>JSON.stringify\<close>. That text is
  carried here as the document it denotes (its syntax tree): the grammar of the output is
  unambiguous, so text and tree determine each other, and \<open>JSON.parse\<close> of such a text
  is the value of the tree. A JSON text is never the empty string.
\<close>

datatype json_text =
    TNull
  | TBool bool
  | TNum real
  | TStr string
  | TArr "json_text list"
  | TObj "(string \<times> json_text) list"

text \<open>
  \<open>JSON.stringify\<close>: \<open>None\<close> is the result \<open>undefined\<close>. A property whose value is
  \<open>undefined\<close> is left out of an object; inside an array \<open>undefined\<close> is written
  \<open>null\<close>; \<open>NaN\<close> and the infinities are written \<open>null\<close>; \<open>-0\<close> is written \<open>0\<close>.
\<close>

fun JSON_stringify :: "jsvalue \<Rightarrow> json_text option"
  and stringify_elems :: "jsvalue list \<Rightarrow> json_text list"
  and stringify_props :: "(string \<times> jsvalue) list \<Rightarrow> (string \<times> json_text) list"
where
  "JSON_stringify JUndefined = None"
| "JSON_stringify JNull = Some TNull"
| "JSON_stringify (JBool b) = Some (TBool b)"
| "JSON_stringify (JNumber (Finite r)) = Some (TNum r)"
| "JSON_stringify (JNumber NegZero) = Some (TNum 0)"
| "JSON_stringify (JNumber NaN) = Some TNull"
| "JSON_stringify (JNumber PosInfinity) = Some TNull"
| "JSON_stringify (JNumber NegInfinity) = Some TNull"
| "JSON_stringify (JString s) = Some (TStr s)"
| "JSON_stringify (JArray vs) = Some (TArr (stringify_elems vs))"
| "JSON_stringify (JObject kvs) = Some (TObj (stringify_props kvs))"
| "stringify_elems [] = []"
| "stringify_elems (v # vs) =
     (case JSON_stringify v of None \<Rightarrow> TNull | Some t \<Rightarrow> t) # stringify_elems vs"
| "stringify_props [] = []"
| "stringify_props (kv # kvs) =
     (case JSON_stringify (snd kv) of
        None \<Rightarrow> stringify_props kvs
      | Some t \<Rightarrow> (fst kv, t) # stringify_props kvs)"

fun JSON_parse :: "json_text \<Rightarrow> jsvalue"
  and parse_elems :: "json_text list \<Rightarrow> jsvalue list"
  and parse_props :: "(string \<times> json_text) list \<Rightarrow> (string \<times> jsvalue) list"
where
  "JSON_parse TNull = JNull"
| "JSON_parse (TBool b) = JBool b"
| "JSON_parse (TNum r) = JNumber (Finite r)"
| "JSON_parse (TStr s) = JString s"
| "JSON_parse (TArr ts) = JArray (parse_elems ts)"
| "JSON_parse (TObj kts) = JObject (parse_props kts)"
| "parse_elems [] = []"
| "parse_elems (t # ts) = JSON_parse t # parse_elems ts"
| "parse_props [] = []"
| "parse_props (kt # kts) = (fst kt, JSON_parse (snd kt)) # parse_props kts"

section \<open>The interaction log store (src/database/schema.ts)\<close>

subsection \<open>Data\<close>

text \<open>
  \<open>InteractionLog\<close> of \<open>src/types\<close>. An optional field is an \<open>option\<close>: \<open>None\<close>
  stands for \<open>undefined\<close> (and for the \<open>null\<close> a NULL column reads back as).
  \<open>status\<close> is a string: the type annotation allows two values, the table's CHECK
  constraint is what enforces them at run time.
\<close>

record InteractionLog =
  log_id :: string
  log_task :: string
  log_response :: string
  log_status :: string
  log_timestamp :: string
  log_processingTime :: int
  log_userAgent :: "string option"
  log_ipAddress :: "string option"
  log_metadata :: "jsvalue option"

text \<open>A row of table \<open>interaction_logs\<close>, with the column names of \<open>initializeTables\<close>.\<close>

record row =
  row_id :: string
  row_task :: string
  row_response :: string
  row_status :: string
  row_timestamp :: string
  row_processing_time :: int
  row_user_agent :: "string option"
  row_ip_address :: "string option"
  row_metadata :: "json_text option"

text \<open>
  What the engine raises: the two constraints of the table that an insert of a
  well-typed log can violate, and any other fault (I/O error, closed or locked
  database, ...) with its message.
\<close>

datatype storage_error =
    SqliteConstraintPrimaryKey
  | SqliteConstraintCheck
  | SqliteFault string

text \<open>
  The database is its one table, in rowid (insertion) order.
\<close>

type_synonym Database = "row list"

text \<open>
  Each method of the service prepares and runs one statement. Whether the engine runs it
  or raises a fault on the way is an input of the call.
\<close>

datatype engine_outcome = Runs | Raises string

subsection \<open>The SQL statements\<close>

text \<open>\<open>CHECK (status IN ('success', 'error'))\<close>\<close>

definition check_status :: "string \<Rightarrow> bool" where
  "check_status s \<longleftrightarrow> s = ''success'' \<or> s = ''error''"

text \<open>
  \<open>INSERT INTO interaction_logs ... VALUES (...)\<close>. A statement that fails leaves the
  table as it was. The CHECK constraint is tested before the primary key.
\<close>

definition sql_insert ::
  "engine_outcome \<Rightarrow> Database \<Rightarrow> row \<Rightarrow> (storage_error + unit) \<times> Database" where
  "sql_insert eng db r =
     (case eng of
        Raises m \<Rightarrow> (Inl (SqliteFault m), db)
      | Runs \<Rightarrow>
          if \<not> check_status (row_status r) then (Inl SqliteConstraintCheck, db)
          else if row_id r \<in> set (map row_id db)
            then (Inl SqliteConstraintPrimaryKey, db)
          else (Inr (), db @ [r]))"

text \<open>
  \<open>ORDER BY timestamp DESC\<close>. SQL leaves the order among rows with equal timestamps
  to the engine; here it is the index on \<open>timestamp\<close> read backwards, which puts the
  row inserted last first. No claim below depends on that choice.
\<close>

definition order_by_timestamp_desc :: "row list \<Rightarrow> row list" where
  "order_by_timestamp_desc rs = rev (sort_key row_timestamp rs)"

text \<open>
  \<open>LIMIT ? OFFSET ?\<close>: a negative offset skips nothing, a negative limit is no limit.
\<close>

definition sql_limit_offset :: "int \<Rightarrow> int \<Rightarrow> 'a list \<Rightarrow> 'a list" where
  "sql_limit_offset limit offset xs =
     (let ys = drop (nat offset) xs
      in if limit < 0 then ys else take (nat limit) ys)"

definition sql_select_page ::
  "engine_outcome \<Rightarrow> Database \<Rightarrow> int \<Rightarrow> int \<Rightarrow> storage_error + row list" where
  "sql_select_page eng db limit offset =
     (case eng of
        Raises m \<Rightarrow> Inl (SqliteFault m)
      | Runs \<Rightarrow> Inr (sql_limit_offset limit offset
                       (order_by_timestamp_desc db)))"

text \<open>\<open>SELECT * FROM interaction_logs WHERE id = ?\<close>, read with \<open>stmt.get\<close>: the first row.\<close>

definition sql_select_by_id ::
  "engine_outcome \<Rightarrow> Database \<Rightarrow> string \<Rightarrow> storage_error + row option" where
  "sql_select_by_id eng db i =
     (case eng of
        Raises m \<Rightarrow> Inl (SqliteFault m)
      | Runs \<Rightarrow> Inr (find (\<lambda>r. row_id r = i) db))"

text \<open>
  The aggregate query of \<open>getStats\<close>. \<open>COUNT(*)\<close> is 0 on an empty table; \<open>SUM\<close> and
  \<open>AVG\<close> are NULL there. \<open>AVG\<close> is computed in exact arithmetic (the engine's result is
  the nearest double).
\<close>

record stats_row =
  st_total :: int
  st_success :: "int option"
  st_avg_time :: "real option"

definition sql_stats :: "engine_outcome \<Rightarrow> Database \<Rightarrow> storage_error + stats_row" where
  "sql_stats eng db =
     (case eng of
        Raises m \<Rightarrow> Inl (SqliteFault m)
      | Runs \<Rightarrow>
          Inr \<lparr>st_total = int (length db),
               st_success =
                 (if db = [] then None
                  else Some (sum_list (map (\<lambda>r. if row_status r = ''success'' then 1 else 0) db))),
               st_avg_time =
                 (if db = [] then None
                  else Some (real_of_int (sum_list (map row_processing_time db))
                             / real (length db)))\<rparr>)"

text \<open>\<open>DELETE FROM interaction_logs WHERE id = ?\<close>, with the number of rows removed.\<close>

definition sql_delete_by_id ::
  "engine_outcome \<Rightarrow> Database \<Rightarrow> string \<Rightarrow> (storage_error + int) \<times> Database" where
  "sql_delete_by_id eng db i =
     (case eng of
        Raises m \<Rightarrow> (Inl (SqliteFault m), db)
      | Runs \<Rightarrow>
          (Inr (int (length (filter (\<lambda>r. row_id r = i) db))),
           filter (\<lambda>r. row_id r \<noteq> i) db))"

text \<open>\<open>DELETE FROM interaction_logs\<close>\<close>

definition sql_delete_all :: "engine_outcome \<Rightarrow> Database \<Rightarrow> (storage_error + int) \<times> Database" where
  "sql_delete_all eng db =
     (case eng of
        Raises m \<Rightarrow> (Inl (SqliteFault m), db)
      | Runs \<Rightarrow> (Inr (int (length db)), []))"

subsection \<open>The methods of \<open>DatabaseService\<close>\<close>

text \<open>\<open>x || null\<close> on an optional string: \<open>undefined\<close> and the empty string give \<open>null\<close>.\<close>

definition or_null :: "string option \<Rightarrow> string option" where
  "or_null x = (case x of None \<Rightarrow> None | Some s \<Rightarrow> if s = [] then None else Some s)"

text \<open>
  \<open>log.metadata ? JSON.stringify(log.metadata) : null\<close>. A truthy value is never
  \<open>undefined\<close>, so \<open>JSON_stringify\<close> gives a text in the first branch.
\<close>

definition metadata_column :: "jsvalue option \<Rightarrow> json_text option" where
  "metadata_column m =
     (case m of
        None \<Rightarrow> None
      | Some v \<Rightarrow> if truthy v then JSON_stringify v else None)"

text \<open>
  \<open>saveInteractionLog\<close> has no handler around \<open>stmt.run\<close>: what the engine raises
  reaches the caller.
\<close>

definition saveInteractionLog ::
  "engine_outcome \<Rightarrow> Database \<Rightarrow> InteractionLog \<Rightarrow> (storage_error + unit) \<times> Database" where
  "saveInteractionLog eng db lg =
     sql_insert eng db
       \<lparr>row_id = log_id lg,
        row_task = log_task lg,
        row_response = log_response lg,
        row_status = log_status lg,
        row_timestamp = log_timestamp lg,
        row_processing_time = log_processingTime lg,
        row_user_agent = or_null (log_userAgent lg),
        row_ip_address = or_null (log_ipAddress lg),
        row_metadata = metadata_column (log_metadata lg)\<rparr>"

text \<open>
  The object built from a row by \<open>getInteractionLogs\<close> and \<open>getInteractionLogById\<close>;
  \<open>row.metadata ? JSON.parse(row.metadata) : undefined\<close> (a stored JSON text is not
  empty, hence truthy).
\<close>

definition row_to_log :: "row \<Rightarrow> InteractionLog" where
  "row_to_log r =
     \<lparr>log_id = row_id r,
      log_task = row_task r,
      log_response = row_response r,
      log_status = row_status r,
      log_timestamp = row_timestamp r,
      log_processingTime = row_processing_time r,
      log_userAgent = row_user_agent r,
      log_ipAddress = row_ip_address r,
      log_metadata = (case row_metadata r of None \<Rightarrow> None | Some t \<Rightarrow> Some (JSON_parse t))\<rparr>"

text \<open>
  \<open>getInteractionLogs(limit = 50, offset = 0)\<close>: an argument left out is \<open>None\<close>.
  There is no \<open>try\<close> in the method.
\<close>

definition getInteractionLogs ::
  "engine_outcome \<Rightarrow> Database \<Rightarrow> int option \<Rightarrow> int option \<Rightarrow> storage_error + InteractionLog list" where
  "getInteractionLogs eng db limit offset =
     (case sql_select_page eng db (case limit of None \<Rightarrow> 50 | Some l \<Rightarrow> l)
                              (case offset of None \<Rightarrow> 0 | Some off \<Rightarrow> off) of
        Inl e \<Rightarrow> Inl e
      | Inr rows \<Rightarrow> Inr (map row_to_log rows))"

text \<open>\<open>getInteractionLogById\<close>: \<open>None\<close> is the result \<open>null\<close>. No \<open>try\<close> either.\<close>

definition getInteractionLogById ::
  "engine_outcome \<Rightarrow> Database \<Rightarrow> string \<Rightarrow> storage_error + InteractionLog option" where
  "getInteractionLogById eng db i =
     (case sql_select_by_id eng db i of
        Inl e \<Rightarrow> Inl e
      | Inr None \<Rightarrow> Inr None
      | Inr (Some r) \<Rightarrow> Inr (Some (row_to_log r)))"

record Stats =
  totalInteractions :: int
  successRate :: real
  averageProcessingTime :: real

text \<open>
  \<open>getStats\<close>: the whole body is inside \<open>try\<close>, and the \<open>catch\<close> returns zeros.
  \<open>result.total || 0\<close> and \<open>result.avg_time || 0\<close> turn \<open>null\<close> and \<open>0\<close> into \<open>0\<close>;
  in \<open>result.success / result.total\<close> a \<open>null\<close> counts as \<open>0\<close>.
\<close>

definition getStats :: "engine_outcome \<Rightarrow> Database \<Rightarrow> storage_error + Stats" where
  "getStats eng db =
     (case sql_stats eng db of
        Inr result \<Rightarrow>
          Inr \<lparr>totalInteractions = (if st_total result = 0 then 0 else st_total result),
               successRate =
                 (if st_total result > 0
                  then (real_of_int (case st_success result of None \<Rightarrow> 0 | Some s \<Rightarrow> s)
                        / real_of_int (st_total result)) * 100
                  else 0),
               averageProcessingTime =
                 (case st_avg_time result of None \<Rightarrow> 0 | Some a \<Rightarrow> if a = 0 then 0 else a)\<rparr>
      | Inl error \<Rightarrow>
          Inr \<lparr>totalInteractions = 0, successRate = 0, averageProcessingTime = 0\<rparr>)"

text \<open>
  \<open>deleteInteractionLog\<close>: \<open>result.changes > 0\<close>, and \<open>false\<close> from the \<open>catch\<close>.
\<close>

definition deleteInteractionLog ::
  "engine_outcome \<Rightarrow> Database \<Rightarrow> string \<Rightarrow> (storage_error + bool) \<times> Database" where
  "deleteInteractionLog eng db i =
     (case sql_delete_by_id eng db i of
        (Inr changes, db') \<Rightarrow> (Inr (changes > 0), db')
      | (Inl error, db') \<Rightarrow> (Inr False, db'))"

text \<open>\<open>deleteAllInteractionLogs\<close>: \<open>result.changes\<close>, and \<open>0\<close> from the \<open>catch\<close>.\<close>

definition deleteAllInteractionLogs ::
  "engine_outcome \<Rightarrow> Database \<Rightarrow> (storage_error + int) \<times> Database" where
  "deleteAllInteractionLogs eng db =
     (case sql_delete_all eng db of
        (Inr changes, db') \<Rightarrow> (Inr changes, db')
      | (Inl error, db') \<Rightarrow> (Inr 0, db'))"

section \<open>Strings of the host language\<close>

abbreviation NL :: string where
  "NL \<equiv> [CHR 0x0A]"

text \<open>\<open>s.includes(sub)\<close>: \<open>sub\<close> occurs in \<open>s\<close> as a contiguous run.\<close>

fun js_includes :: "string \<Rightarrow> string \<Rightarrow> bool" where
  "js_includes [] sub = (sub = [])"
| "js_includes (c # cs) sub = (take (length sub) (c # cs) = sub \<or> js_includes cs sub)"

text \<open>
  \<open>s.toLowerCase()\<close>. The letters \<open>A\<close> to \<open>Z\<close> are folded; bytes of characters
  outside ASCII are left as they are, so the result is exact on ASCII text.
\<close>

definition toLowerChar :: "char \<Rightarrow> char" where
  "toLowerChar c =
     (case map_of (zip ''ABCDEFGHIJKLMNOPQRSTUVWXYZ'' ''abcdefghijklmnopqrstuvwxyz'') c of
        Some l \<Rightarrow> l
      | None \<Rightarrow> c)"

definition toLowerCase :: "string \<Rightarrow> string" where
  "toLowerCase s = map toLowerChar s"

text \<open>
  The white space and line terminators of ECMAScript, in UTF-8: TAB, LF, VT, FF, CR,
  SPACE, U+00A0, U+1680, U+2000 to U+200A, U+2028, U+2029, U+202F, U+205F, U+3000 and
  U+FEFF.
\<close>

definition white_space :: "string list" where
  "white_space =
     [[CHR 0x09], [CHR 0x0A], [CHR 0x0B], [CHR 0x0C], [CHR 0x0D], [CHR 0x20],
      [CHR 0xC2, CHR 0xA0],
      [CHR 0xE1, CHR 0x9A, CHR 0x80],
      [CHR 0xE2, CHR 0x80, CHR 0x80], [CHR 0xE2, CHR 0x80, CHR 0x81],
      [CHR 0xE2, CHR 0x80, CHR 0x82], [CHR 0xE2, CHR 0x80, CHR 0x83],
      [CHR 0xE2, CHR 0x80, CHR 0x84], [CHR 0xE2, CHR 0x80, CHR 0x85],
      [CHR 0xE2, CHR 0x80, CHR 0x86], [CHR 0xE2, CHR 0x80, CHR 0x87],
      [CHR 0xE2, CHR 0x80, CHR 0x88], [CHR 0xE2, CHR 0x80, CHR 0x89],
      [CHR 0xE2, CHR 0x80, CHR 0x8A],
      [CHR 0xE2, CHR 0x80, CHR 0xA8], [CHR 0xE2, CHR 0x80, CHR 0xA9],
      [CHR 0xE2, CHR 0x80, CHR 0xAF],
      [CHR 0xE2, CHR 0x81, CHR 0x9F],
      [CHR 0xE3, CHR 0x80, CHR 0x80],
      [CHR 0xEF, CHR 0xBB, CHR 0xBF]]"

text \<open>The length of the sequence of \<open>seqs\<close> that \<open>s\<close> starts with, 0 when there is none.\<close>

definition leading :: "string list \<Rightarrow> string \<Rightarrow> nat" where
  "leading seqs s =
     (case find (\<lambda>q. take (length q) s = q) seqs of None \<Rightarrow> 0 | Some q \<Rightarrow> length q)"

fun strip_leading :: "string list \<Rightarrow> string \<Rightarrow> string" where
  "strip_leading seqs [] = []"
| "strip_leading seqs (c # cs) =
     (case leading seqs (c # cs) of
        0 \<Rightarrow> c # cs
      | Suc n \<Rightarrow> strip_leading seqs (drop n cs))"

definition trimStart :: "string \<Rightarrow> string" where
  "trimStart s = strip_leading white_space s"

definition trimEnd :: "string \<Rightarrow> string" where
  "trimEnd s = rev (strip_leading (map rev white_space) (rev s))"

text \<open>\<open>s.trim()\<close>\<close>

definition js_trim :: "string \<Rightarrow> string" where
  "js_trim s = trimEnd (trimStart s)"

text \<open>A non-negative integer in decimal, as a template literal prints it.\<close>

fun digits :: "nat \<Rightarrow> string" where
  "digits n =
     (if n < 10 then [''0123456789'' ! n]
      else digits (n div 10) @ [''0123456789'' ! (n mod 10)])"

definition show_int :: "int \<Rightarrow> string" where
  "show_int n = (if n < 0 then ''-'' @ digits (nat (- n)) else digits (nat n))"

text \<open>\<open>x || d\<close> on an optional string: \<open>undefined\<close> and the empty string give \<open>d\<close>.\<close>

definition or_default :: "string option \<Rightarrow> string \<Rightarrow> string" where
  "or_default x d = (case x of None \<Rightarrow> d | Some s \<Rightarrow> if s = [] then d else s)"

text \<open>
  \<open>parseInt(x)\<close> with no radix; \<open>None\<close> is \<open>NaN\<close>. The argument is converted to a
  string (\<open>undefined\<close> becomes the text \<open>undefined\<close>), leading white space and a sign
  are taken off, a prefix \<open>0x\<close> or \<open>0X\<close> selects radix 16, and the longest run of
  digits is read. The value is exact here; the engine rounds it to a double beyond
  \<open>2^53\<close>.
\<close>

definition digit_value :: "char \<Rightarrow> nat option" where
  "digit_value c =
     map_of (zip ''0123456789abcdefABCDEF''
                 [0, 1, 2, 3, 4, 5, 6, 7, 8, 9, 10, 11, 12, 13, 14, 15, 10, 11, 12, 13, 14, 15]) c"

definition is_digit :: "nat \<Rightarrow> char \<Rightarrow> bool" where
  "is_digit radix c = (case digit_value c of None \<Rightarrow> False | Some d \<Rightarrow> d < radix)"

definition digits_value :: "nat \<Rightarrow> string \<Rightarrow> nat" where
  "digits_value radix z =
     foldl (\<lambda>n c. n * radix + (case digit_value c of None \<Rightarrow> 0 | Some d \<Rightarrow> d)) 0 z"

definition parseInt :: "string option \<Rightarrow> int option" where
  "parseInt x =
     (let inputString = (case x of None \<Rightarrow> ''undefined'' | Some s \<Rightarrow> s);
          s = trimStart inputString;
          negative = (take 1 s = ''-'');
          s1 = (if take 1 s = ''-'' \<or> take 1 s = ''+'' then drop 1 s else s);
          hex = (take 2 s1 = ''0x'' \<or> take 2 s1 = ''0X'');
          radix = (if hex then 16 else 10);
          s2 = (if hex then drop 2 s1 else s1);
          z = takeWhile (is_digit radix) s2
      in if z = [] then None
         else Some ((if negative then - 1 else 1) * int (digits_value radix z)))"

text \<open>\<open>x || d\<close> on a number: \<open>NaN\<close> and \<open>0\<close> give \<open>d\<close>.\<close>

definition or_number :: "int option \<Rightarrow> int \<Rightarrow> int" where
  "or_number x d = (case x of None \<Rightarrow> d | Some n \<Rightarrow> if n = 0 then d else n)"

section \<open>The task processor (src/services/aiService.ts)\<close>

subsection \<open>Data\<close>

record TaskRequest =
  req_task :: string
  req_context :: "string option"
  req_priority :: "string option"

record TaskResponse =
  resp_id :: string
  resp_task :: string
  resp_response :: string
  resp_status :: string
  resp_timestamp :: string
  resp_processingTime :: int
  resp_metadata :: "jsvalue option"

text \<open>
  What a call reads from its surroundings: \<open>uuidv4()\<close>, \<open>Date.now()\<close> on entry and
  when the result is built, \<open>new Date().toISOString()\<close> and
  \<open>new Date().toLocaleString()\<close>.
\<close>

record Env =
  env_uuid :: string
  env_startTime :: int
  env_endTime :: int
  env_isoString :: string
  env_localeString :: string

text \<open>A thrown value: an \<open>Error\<close> with its message, or anything else.\<close>

datatype thrown = ErrorObject string | NotAnError

text \<open>
  The generation backend, \<open>openai.chat.completions.create\<close>: from the system prompt and
  the user prompt, either a rejection or the completion, given by the
  \<open>message.content\<close> of each of its choices (\<open>None\<close> when there is none).
\<close>

type_synonym backend = "string \<Rightarrow> string \<Rightarrow> thrown + string option list"

subsection \<open>The live strategy\<close>

definition prompt_analysis :: string where
  "prompt_analysis =
     ''You are a data analysis assistant. Provide clear, structured analysis with actionable insights. '' @ NL @
     ''      Format your response with bullet points and include key metrics when relevant.''"

definition prompt_summary :: string where
  "prompt_summary =
     ''You are a summarization expert. Create concise, well-structured summaries that capture the key points. '' @ NL @
     ''      Use clear headings and bullet points for better readability.''"

definition prompt_report :: string where
  "prompt_report =
     ''You are a professional report writer. Create structured, professional reports with clear sections. '' @ NL @
     ''      Include relevant details and maintain a formal tone.''"

definition prompt_business :: string where
  "prompt_business =
     ''You are a business development assistant. Focus on actionable insights for lead management and client relations. '' @ NL @
     ''      Provide specific recommendations and next steps.''"

definition prompt_default :: string where
  "prompt_default =
     ''You are a helpful AI assistant. Provide clear, accurate, and actionable responses. '' @ NL @
     ''    Structure your answers logically and include relevant details.''"

definition getSystemPrompt :: "string \<Rightarrow> string" where
  "getSystemPrompt task =
     (let taskLower = toLowerCase task in
      if js_includes taskLower ''analyze'' \<or> js_includes taskLower ''analysis''
        then prompt_analysis
      else if js_includes taskLower ''summarize'' \<or> js_includes taskLower ''summary''
        then prompt_summary
      else if js_includes taskLower ''report'' \<or> js_includes taskLower ''update''
        then prompt_report
      else if js_includes taskLower ''lead'' \<or> js_includes taskLower ''client''
        then prompt_business
      else prompt_default)"

definition buildUserPrompt :: "TaskRequest \<Rightarrow> string" where
  "buildUserPrompt request =
     ''Task: '' @ req_task request
     @ (case req_context request of
          None \<Rightarrow> []
        | Some c \<Rightarrow> if c = [] then [] else NL @ NL @ ''Context: '' @ c)
     @ (case req_priority request of
          None \<Rightarrow> []
        | Some p \<Rightarrow> if p = [] then [] else NL @ NL @ ''Priority: '' @ p)"

text \<open>\<open>completion.choices[0]?.message?.content || 'No response generated'\<close>\<close>

definition first_content :: "string option list \<Rightarrow> string" where
  "first_content choices =
     (case choices of
        [] \<Rightarrow> ''No response generated''
      | c # rest \<Rightarrow> or_default c ''No response generated'')"

definition generateResponse :: "backend \<Rightarrow> TaskRequest \<Rightarrow> thrown + string" where
  "generateResponse create request =
     (case create (getSystemPrompt (req_task request)) (buildUserPrompt request) of
        Inl e \<Rightarrow> Inl e
      | Inr completion \<Rightarrow> Inr (first_content completion))"

text \<open>\<open>error instanceof Error ? error.message : 'Unknown error'\<close>\<close>

definition error_message :: "thrown \<Rightarrow> string" where
  "error_message e = (case e of ErrorObject m \<Rightarrow> m | NotAnError \<Rightarrow> ''Unknown error'')"

text \<open>\<open>context: request.context\<close> in an object literal.\<close>

definition context_value :: "string option \<Rightarrow> jsvalue" where
  "context_value c = (case c of None \<Rightarrow> JUndefined | Some s \<Rightarrow> JString s)"

text \<open>
  \<open>processTask\<close>: the call of \<open>generateResponse\<close> is inside \<open>try\<close>; the \<open>catch\<close>
  builds a result of its own. The result type keeps a place for a value thrown to the
  caller.
\<close>

definition processTask :: "Env \<Rightarrow> backend \<Rightarrow> TaskRequest \<Rightarrow> thrown + TaskResponse" where
  "processTask env create request =
     (case generateResponse create request of
        Inr response \<Rightarrow>
          Inr \<lparr>resp_id = env_uuid env,
               resp_task = req_task request,
               resp_response = response,
               resp_status = ''success'',
               resp_timestamp = env_isoString env,
               resp_processingTime = env_endTime env - env_startTime env,
               resp_metadata = Some (JObject
                 [(''priority'', JString (or_default (req_priority request) ''medium'')),
                  (''context'', context_value (req_context request)),
                  (''model'', JString ''gpt-3.5-turbo'')])\<rparr>
      | Inl error \<Rightarrow>
          Inr \<lparr>resp_id = env_uuid env,
               resp_task = req_task request,
               resp_response = ''Error processing task: '' @ error_message error,
               resp_status = ''error'',
               resp_timestamp = env_isoString env,
               resp_processingTime = env_endTime env - env_startTime env,
               resp_metadata = Some (JObject
                 [(''priority'', JString (or_default (req_priority request) ''medium'')),
                  (''context'', context_value (req_context request)),
                  (''error'', JString (error_message error))])\<rparr>)"

subsection \<open>The simulation strategy\<close>

definition lead_analysis_report :: string where
  "lead_analysis_report =
     ''Lead Analysis Report:'' @ NL @
     ''      '' @ NL @
     [CHR 0xC4, CHR 0x9F, CHR 0xC5, CHR 0xB8, CHR 0xE2, CHR 0x80, CHR 0x9C, CHR 0xC5, CHR 0xA0]
       @ '' **Summary**'' @ NL @
     ''- Total leads: 150'' @ NL @
     ''- Qualified leads: 45 (30%)'' @ NL @
     ''- Hot prospects: 12 (8%)'' @ NL @
     NL @
     [CHR 0xC4, CHR 0x9F, CHR 0xC5, CHR 0xB8, CHR 0xC2, CHR 0xAF]
       @ '' **Top Performing Sources**'' @ NL @
     ''1. LinkedIn (35% conversion)'' @ NL @
     ''2. Website referrals (28% conversion)'' @ NL @
     ''3. Email campaigns (22% conversion)'' @ NL @
     NL @
     [CHR 0xC4, CHR 0x9F, CHR 0xC5, CHR 0xB8, CHR 0xE2, CHR 0x80, CHR 0x9C, CHR 0xCB, CHR 0x86]
       @ '' **Recommendations**'' @ NL @
     ''- Focus on LinkedIn lead nurturing'' @ NL @
     ''- Optimize website conversion funnel'' @ NL @
     ''- Implement lead scoring system'' @ NL @
     NL @
     [CHR 0xC3, CHR 0xA2, CHR 0xC2, CHR 0xB0] @ '' **Next Steps**'' @ NL @
     ''- Schedule follow-up calls for hot prospects'' @ NL @
     ''- Create targeted content for qualified leads'' @ NL @
     ''- Review and update lead qualification criteria''"

definition call_summary_report :: string where
  "call_summary_report =
     ''Call Summary Report:'' @ NL @
     NL @
     [CHR 0xC4, CHR 0x9F, CHR 0xC5, CHR 0xB8, CHR 0xE2, CHR 0x80, CHR 0x9C]
       @ '' **Call Overview**'' @ NL @
     ''- Total calls: 25'' @ NL @
     ''- Average duration: 12 minutes'' @ NL @
     ''- Follow-up required: 8 calls'' @ NL @
     NL @
     [CHR 0xC4, CHR 0x9F, CHR 0xC5, CHR 0xB8, CHR 0xC2, CHR 0xAF] @ '' **Key Outcomes**'' @ NL @
     ''- 5 new qualified leads identified'' @ NL @
     ''- 3 product demos scheduled'' @ NL @
     ''- 2 pricing discussions initiated'' @ NL @
     NL @
     [CHR 0xC4, CHR 0x9F, CHR 0xC5, CHR 0xB8, CHR 0xE2, CHR 0x80, CHR 0x9C]
       @ '' **Action Items**'' @ NL @
     ''- Follow up with 3 prospects by Friday'' @ NL @
     ''- Send product information to 5 leads'' @ NL @
     ''- Schedule technical demo for enterprise client'' @ NL @
     NL @
     [CHR 0xC3, CHR 0xA2, CHR 0xC5, CHR 0xA1, CHR 0xC2, CHR 0xA0, CHR 0xC3, CHR 0xAF, CHR 0xC2, CHR 0xB8]
       @ '' **Issues Identified**'' @ NL @
     ''- 2 prospects mentioned budget constraints'' @ NL @
     ''- 1 lead needs additional technical validation''"

definition client_report_update :: string where
  "client_report_update =
     ''Client Report Update:'' @ NL @
     NL @
     [CHR 0xC4, CHR 0x9F, CHR 0xC5, CHR 0xB8, CHR 0xE2, CHR 0x80, CHR 0x9C, CHR 0xE2, CHR 0x80, CHR 0xB9]
       @ '' **Report Status: Updated**'' @ NL @
     NL @
     [CHR 0xC4, CHR 0x9F, CHR 0xC5, CHR 0xB8, CHR 0xE2, CHR 0x80, CHR 0x9C, CHR 0xC5, CHR 0xA0]
       @ '' **Key Metrics**'' @ NL @
     ''- Client satisfaction: 4.8/5'' @ NL @
     ''- Project completion: 85%'' @ NL @
     ''- On-time delivery: 92%'' @ NL @
     NL @
     [CHR 0xC4, CHR 0x9F, CHR 0xC5, CHR 0xB8, CHR 0xC2, CHR 0xAF]
       @ '' **Recent Achievements**'' @ NL @
     ''- Completed Phase 2 deliverables'' @ NL @
     ''- Resolved 3 critical issues'' @ NL @
     ''- Implemented requested feature updates'' @ NL @
     NL @
     [CHR 0xC4, CHR 0x9F, CHR 0xC5, CHR 0xB8, CHR 0xE2, CHR 0x80, CHR 0x9C, CHR 0xCB, CHR 0x86]
       @ '' **Progress Summary**'' @ NL @
     ''- Milestone 1: '' @ [CHR 0xC3, CHR 0xA2, CHR 0xC5, CHR 0x93, CHR 0xE2, CHR 0x80, CHR 0xA6]
       @ '' Completed'' @ NL @
     ''- Milestone 2: '' @ [CHR 0xC3, CHR 0xA2, CHR 0xC5, CHR 0x93, CHR 0xE2, CHR 0x80, CHR 0xA6]
       @ '' Completed  '' @ NL @
     ''- Milestone 3: '' @ [CHR 0xC4, CHR 0x9F, CHR 0xC5, CHR 0xB8, CHR 0xE2, CHR 0x80, CHR 0x9D, CHR 0xE2, CHR 0x80, CHR 0x9E]
       @ '' In Progress (85% complete)'' @ NL @
     ''- Milestone 4: '' @ [CHR 0xC3, CHR 0xA2, CHR 0xC2, CHR 0xB3] @ '' Pending'' @ NL @
     NL @
     [CHR 0xC4, CHR 0x9F, CHR 0xC5, CHR 0xB8, CHR 0xE2, CHR 0x80, CHR 0x9C, CHR 0xE2, CHR 0x80, CHR 0xA6]
       @ '' **Next Steps**'' @ NL @
     ''- Complete final testing phase'' @ NL @
     ''- Prepare final deliverables'' @ NL @
     ''- Schedule project review meeting''"

text \<open>The acknowledgement of a task that matches none of the three phrases.\<close>

definition generic_acknowledgement :: "Env \<Rightarrow> TaskRequest \<Rightarrow> string" where
  "generic_acknowledgement env request =
     ''Task completed successfully: '' @ [CHR 0x22] @ req_task request @ [CHR 0x22] @ NL @
     NL @
     [CHR 0xC3, CHR 0xA2, CHR 0xC5, CHR 0x93, CHR 0xE2, CHR 0x80, CHR 0xA6]
       @ '' **Status**: Completed'' @ NL @
     [CHR 0xC4, CHR 0x9F, CHR 0xC5, CHR 0xB8, CHR 0xE2, CHR 0x80, CHR 0x9C, CHR 0xE2, CHR 0x80, CHR 0xA6]
       @ '' **Timestamp**: '' @ env_localeString env @ NL @
     [CHR 0xC4, CHR 0x9F, CHR 0xC5, CHR 0xB8, CHR 0xC2, CHR 0xAF]
       @ '' **Priority**: '' @ or_default (req_priority request) ''medium'' @ NL @
     NL @
     (case req_context request of
        None \<Rightarrow> []
      | Some c \<Rightarrow>
          if c = [] then []
          else [CHR 0xC4, CHR 0x9F, CHR 0xC5, CHR 0xB8, CHR 0xE2, CHR 0x80, CHR 0x9C]
                 @ '' **Context**: '' @ c) @ NL @
     NL @
     ''The task has been processed and is ready for review.''"

text \<open>
  \<open>simulateTaskProcessing\<close>. The delay before the answer only moves \<open>env_endTime\<close>.
  Nothing in the body throws; there is no \<open>try\<close>.
\<close>

definition simulateTaskProcessing :: "Env \<Rightarrow> TaskRequest \<Rightarrow> thrown + TaskResponse" where
  "simulateTaskProcessing env request =
     (let taskLower = toLowerCase (req_task request);
          response =
            (if js_includes taskLower ''analyze leads'' then lead_analysis_report
             else if js_includes taskLower ''summarize calls'' then call_summary_report
             else if js_includes taskLower ''update client report'' then client_report_update
             else generic_acknowledgement env request)
      in Inr \<lparr>resp_id = env_uuid env,
              resp_task = req_task request,
              resp_response = response,
              resp_status = ''success'',
              resp_timestamp = env_isoString env,
              resp_processingTime = env_endTime env - env_startTime env,
              resp_metadata = Some (JObject
                [(''priority'', JString (or_default (req_priority request) ''medium'')),
                 (''context'', context_value (req_context request)),
                 (''simulated'', JBool True)])\<rparr>)"

section \<open>The request handlers (src/routes/taskRoutes.ts)\<close>

datatype api_data =
    TaskData TaskResponse
  | LogList "InteractionLog list"
  | LogData InteractionLog
  | StatsData Stats
  | DeletedCount int

record ApiResponse =
  api_success :: bool
  api_data :: "api_data option"
  api_error :: "string option"
  api_message :: "string option"

record HttpResponse =
  http_status :: nat
  http_body :: ApiResponse

text \<open>\<open>res.status(code).json({success: false, error: msg})\<close>\<close>

definition failure :: "nat \<Rightarrow> string \<Rightarrow> HttpResponse" where
  "failure code msg =
     \<lparr>http_status = code,
      http_body = \<lparr>api_success = False, api_data = None, api_error = Some msg,
                   api_message = None\<rparr>\<rparr>"

text \<open>\<open>res.json({success: true, ...})\<close>, with the default status 200.\<close>

definition ok :: "api_data option \<Rightarrow> string \<Rightarrow> HttpResponse" where
  "ok d msg =
     \<lparr>http_status = 200,
      http_body = \<lparr>api_success = True, api_data = d, api_error = None,
                   api_message = Some msg\<rparr>\<rparr>"

text \<open>
  What \<open>POST /process\<close> reads from the request: the \<open>task\<close> of the body as the value
  it is (\<open>JUndefined\<close> when the body has none), \<open>context\<close> and \<open>priority\<close> at the type
  \<open>TaskRequest\<close> declares, the \<open>User-Agent\<close> header and the peer address.
\<close>

record ProcessRequest =
  body_task :: jsvalue
  body_context :: "string option"
  body_priority :: "string option"
  header_user_agent :: "string option"
  request_ip :: "string option"

text \<open>\<open>typeof v !== 'string'\<close>, and the string that a string value is.\<close>

definition not_a_string :: "jsvalue \<Rightarrow> bool" where
  "not_a_string v = (case v of JString s \<Rightarrow> False | _ \<Rightarrow> True)"

definition string_of :: "jsvalue \<Rightarrow> string" where
  "string_of v = (case v of JString s \<Rightarrow> s | _ \<Rightarrow> [])"

text \<open>\<open>!task || typeof task !== 'string' || task.trim().length === 0\<close>\<close>

definition task_rejected :: "jsvalue \<Rightarrow> bool" where
  "task_rejected task \<longleftrightarrow>
     \<not> truthy task \<or> not_a_string task \<or> length (js_trim (string_of task)) = 0"

text \<open>
  \<open>router.post('/process')\<close>. \<open>api_key\<close> is \<open>process.env.OPENAI_API_KEY\<close>. Whatever is
  thrown inside the handler's \<open>try\<close> becomes the answer 500.
\<close>

definition post_process ::
  "string option \<Rightarrow> Env \<Rightarrow> backend \<Rightarrow> engine_outcome \<Rightarrow> Database \<Rightarrow> ProcessRequest
     \<Rightarrow> HttpResponse \<times> Database" where
  "post_process api_key env create eng db req =
     (if task_rejected (body_task req)
      then (failure 400 ''Task is required and must be a non-empty string'', db)
      else
        (let taskRequest = \<lparr>req_task = js_trim (string_of (body_task req)),
                            req_context = body_context req,
                            req_priority = body_priority req\<rparr>
         in case (if or_default api_key [] \<noteq> []
                  then processTask env create taskRequest
                  else simulateTaskProcessing env taskRequest) of
              Inl error \<Rightarrow> (failure 500 ''Internal server error while processing task'', db)
            | Inr response \<Rightarrow>
                (case saveInteractionLog eng db
                        \<lparr>log_id = resp_id response,
                         log_task = resp_task response,
                         log_response = resp_response response,
                         log_status = resp_status response,
                         log_timestamp = resp_timestamp response,
                         log_processingTime = resp_processingTime response,
                         log_userAgent = header_user_agent req,
                         log_ipAddress = request_ip req,
                         log_metadata = resp_metadata response\<rparr> of
                   (Inl error, db') \<Rightarrow>
                     (failure 500 ''Internal server error while processing task'', db')
                 | (Inr u, db') \<Rightarrow>
                     (ok (Some (TaskData response)) ''Task processed successfully'', db'))))"

text \<open>
  \<open>router.get('/logs')\<close>: the two values computed from the query string, and the call
  of the store with them. A query parameter is a string, or absent (\<open>None\<close>).
\<close>

definition logs_limit :: "string option \<Rightarrow> int" where
  "logs_limit q = min (or_number (parseInt q) 50) 100"

definition logs_offset :: "string option \<Rightarrow> int" where
  "logs_offset q = max (or_number (parseInt q) 0) 0"

definition get_logs ::
  "engine_outcome \<Rightarrow> Database \<Rightarrow> string option \<Rightarrow> string option \<Rightarrow> HttpResponse" where
  "get_logs eng db limit_q offset_q =
     (case getInteractionLogs eng db (Some (logs_limit limit_q)) (Some (logs_offset offset_q)) of
        Inl error \<Rightarrow> failure 500 ''Internal server error while retrieving logs''
      | Inr logs \<Rightarrow>
          ok (Some (LogList logs))
             (''Retrieved '' @ digits (length logs) @ '' interaction logs''))"

text \<open>\<open>router.get('/logs/:id')\<close>\<close>

definition get_log_by_id :: "engine_outcome \<Rightarrow> Database \<Rightarrow> string \<Rightarrow> HttpResponse" where
  "get_log_by_id eng db i =
     (case getInteractionLogById eng db i of
        Inl error \<Rightarrow> failure 500 ''Internal server error while retrieving log''
      | Inr None \<Rightarrow> failure 404 ''Interaction log not found''
      | Inr (Some l) \<Rightarrow> ok (Some (LogData l)) ''Interaction log retrieved successfully'')"

text \<open>\<open>router.get('/stats')\<close>\<close>

definition get_stats :: "engine_outcome \<Rightarrow> Database \<Rightarrow> HttpResponse" where
  "get_stats eng db =
     (case getStats eng db of
        Inl error \<Rightarrow> failure 500 ''Internal server error while retrieving statistics''
      | Inr stats \<Rightarrow> ok (Some (StatsData stats)) ''Statistics retrieved successfully'')"

text \<open>\<open>router.delete('/logs/:id')\<close>; a path parameter is a string.\<close>

definition delete_log_by_id ::
  "engine_outcome \<Rightarrow> Database \<Rightarrow> string \<Rightarrow> HttpResponse \<times> Database" where
  "delete_log_by_id eng db i =
     (if i = [] then (failure 400 ''Valid ID is required'', db)
      else
        (case deleteInteractionLog eng db i of
           (Inl error, db') \<Rightarrow> (failure 500 ''Internal server error while deleting log'', db')
         | (Inr deleted, db') \<Rightarrow>
             if \<not> deleted then (failure 404 ''Interaction log not found'', db')
             else (\<lparr>http_status = 200,
                    http_body = \<lparr>api_success = True, api_data = None, api_error = None,
                      api_message = Some ''Interaction log deleted successfully''\<rparr>\<rparr>, db')))"

text \<open>\<open>router.delete('/logs')\<close>\<close>

definition delete_logs :: "engine_outcome \<Rightarrow> Database \<Rightarrow> HttpResponse \<times> Database" where
  "delete_logs eng db =
     (case deleteAllInteractionLogs eng db of
        (Inl error, db') \<Rightarrow> (failure 500 ''Internal server error while deleting logs'', db')
      | (Inr deletedCount, db') \<Rightarrow>
          (ok (Some (DeletedCount deletedCount))
              (''Successfully deleted '' @ show_int deletedCount @ '' interaction logs''), db'))"

section \<open>Notions of the specification\<close>

text \<open>The invariant of the table: \<open>id\<close> is unique, \<open>status\<close> is one of the two values.\<close>

definition store_inv :: "Database \<Rightarrow> bool" where
  "store_inv db \<longleftrightarrow>
     distinct (map row_id db) \<and> list_all (\<lambda>r. check_status (row_status r)) db"



text \<open>
  The values that JSON can write down as they are: no \<open>undefined\<close>, no \<open>NaN\<close>, no
  infinity, no negative zero, at any depth.
\<close>

fun json_value :: "jsvalue \<Rightarrow> bool"
  and json_values :: "jsvalue list \<Rightarrow> bool"
  and json_props :: "(string \<times> jsvalue) list \<Rightarrow> bool"
where
  "json_value JUndefined = False"
| "json_value JNull = True"
| "json_value (JBool b) = True"
| "json_value (JNumber (Finite r)) = True"
| "json_value (JNumber NegZero) = False"
| "json_value (JNumber NaN) = False"
| "json_value (JNumber PosInfinity) = False"
| "json_value (JNumber NegInfinity) = False"
| "json_value (JString s) = True"
| "json_value (JArray vs) = json_values vs"
| "json_value (JObject kvs) = json_props kvs"
| "json_values [] = True"
| "json_values (v # vs) = (json_value v \<and> json_values vs)"
| "json_props [] = True"
| "json_props (kv # kvs) = (json_value (snd kv) \<and> json_props kvs)"

text \<open>\<open>r.metadata[k]\<close> of a task response.\<close>

definition metadata_field :: "TaskResponse \<Rightarrow> string \<Rightarrow> jsvalue option" where
  "metadata_field r k =
     (case resp_metadata r of Some (JObject props) \<Rightarrow> map_of props k | _ \<Rightarrow> None)"

subsection \<open>Sample inputs\<close>

definition row_a :: row where
  "row_a = \<lparr>row_id = ''a'', row_task = ''analyze leads'', row_response = ''done'',
            row_status = ''success'', row_timestamp = ''2024-01-01T00:00:00.000Z'',
            row_processing_time = 5, row_user_agent = None, row_ip_address = None,
            row_metadata = None\<rparr>"

definition row_b :: row where
  "row_b = \<lparr>row_id = ''b'', row_task = ''summarize calls'', row_response = ''failed'',
            row_status = ''error'', row_timestamp = ''2024-01-01T00:00:00.000Z'',
            row_processing_time = 7, row_user_agent = None, row_ip_address = None,
            row_metadata = None\<rparr>"

definition row_c :: row where
  "row_c = \<lparr>row_id = ''c'', row_task = ''xyz123'', row_response = ''done'',
            row_status = ''success'', row_timestamp = ''2024-01-02T00:00:00.000Z'',
            row_processing_time = 9, row_user_agent = None, row_ip_address = None,
            row_metadata = None\<rparr>"

text \<open>
  A log with the metadata that \<open>simulateTaskProcessing\<close> builds for a request without
  context, one whose metadata holds only JSON values, one whose metadata holds \<open>NaN\<close>,
  and one that repeats the id of \<open>row_a\<close>.
\<close>

definition log_no_context :: InteractionLog where
  "log_no_context =
     \<lparr>log_id = ''id-1'', log_task = ''xyz123'', log_response = ''done'',
      log_status = ''success'', log_timestamp = ''2024-01-03T00:00:00.000Z'',
      log_processingTime = 612, log_userAgent = Some ''curl/8.0'', log_ipAddress = None,
      log_metadata = Some (JObject [(''priority'', JString ''medium''),
                                    (''context'', JUndefined),
                                    (''simulated'', JBool True)])\<rparr>"

definition log_with_context :: InteractionLog where
  "log_with_context =
     \<lparr>log_id = ''id-2'', log_task = ''xyz123'', log_response = ''done'',
      log_status = ''success'', log_timestamp = ''2024-01-03T00:00:00.000Z'',
      log_processingTime = 612, log_userAgent = Some ''curl/8.0'', log_ipAddress = None,
      log_metadata = Some (JObject [(''priority'', JString ''high''),
                                    (''context'', JString ''Q4 sales data''),
                                    (''simulated'', JBool True)])\<rparr>"

definition log_nan :: InteractionLog where
  "log_nan =
     \<lparr>log_id = ''id-3'', log_task = ''xyz123'', log_response = ''done'',
      log_status = ''success'', log_timestamp = ''2024-01-03T00:00:00.000Z'',
      log_processingTime = 612, log_userAgent = None, log_ipAddress = None,
      log_metadata = Some (JObject [(''score'', JNumber NaN)])\<rparr>"

definition log_duplicate :: InteractionLog where
  "log_duplicate =
     \<lparr>log_id = ''a'', log_task = ''xyz123'', log_response = ''done'',
      log_status = ''success'', log_timestamp = ''2024-01-03T00:00:00.000Z'',
      log_processingTime = 1, log_userAgent = None, log_ipAddress = None,
      log_metadata = None\<rparr>"

definition env0 :: Env where
  "env0 = \<lparr>env_uuid = ''0b9f6c1e-5d1c-4a57-9d55-7f2a3c1e8a10'', env_startTime = 1000,
           env_endTime = 1750, env_isoString = ''2024-01-03T00:00:00.750Z'',
           env_localeString = ''1/3/2024, 12:00:00 AM''\<rparr>"

definition request0 :: TaskRequest where
  "request0 = \<lparr>req_task = ''analyze leads'', req_context = None, req_priority = Some ''high''\<rparr>"

text \<open>A backend that rejects every call, as with a refused credential.\<close>

definition rejecting_backend :: backend where
  "rejecting_backend sys usr = Inl (ErrorObject ''401 Incorrect API key provided'')"

text \<open>A request whose \<open>task\<close> is two spaces.\<close>

definition blank_request :: ProcessRequest where
  "blank_request = \<lparr>body_task = JString ''  '', body_context = None, body_priority = None,
                    header_user_agent = Some ''curl/8.0'', request_ip = Some ''127.0.0.1''\<rparr>"

section \<open>Auxiliary facts\<close>


lemma save_keeps_inv: "store_inv db \<Longrightarrow> store_inv (snd (saveInteractionLog eng db lg))"
  by (cases eng) (auto simp: store_inv_def saveInteractionLog_def sql_insert_def)

lemma delete_keeps_inv: "store_inv db \<Longrightarrow> store_inv (snd (deleteInteractionLog eng db i))"
  by (cases eng)
     (auto simp: store_inv_def deleteInteractionLog_def sql_delete_by_id_def
        distinct_map_filter list_all_iff)

lemma delete_all_keeps_inv:
  "store_inv db \<Longrightarrow> store_inv (snd (deleteAllInteractionLogs eng db))"
  by (cases eng) (auto simp: store_inv_def deleteAllInteractionLogs_def sql_delete_all_def)

lemma save_rejects:
  "log_id lg \<in> set (map row_id db) \<or> \<not> check_status (log_status lg) \<Longrightarrow>
   \<exists>e. saveInteractionLog eng db lg = (Inl e, db)"
  by (cases eng) (auto simp: saveInteractionLog_def sql_insert_def)

lemma order_desc_sorted:
  "sorted_wrt (\<lambda>a b. row_timestamp b \<le> row_timestamp a) (order_by_timestamp_desc rs)"
proof -
  have "sorted (map row_timestamp (sort_key row_timestamp rs))"
    by (rule sorted_sort_key)
  then have "sorted_wrt (\<lambda>a b. row_timestamp a \<le> row_timestamp b) (sort_key row_timestamp rs)"
    by (simp add: sorted_map)
  then show ?thesis
    by (simp add: order_by_timestamp_desc_def sorted_wrt_rev)
qed

lemma order_desc_strict:
  assumes "distinct (map row_timestamp rs)"
  shows "sorted_wrt (\<lambda>a b. row_timestamp b < row_timestamp a) (order_by_timestamp_desc rs)"
proof -
  let ?ts = "map row_timestamp (sort_key row_timestamp rs)"
  have "sorted ?ts" by (rule sorted_sort_key)
  moreover have "distinct ?ts"
    using assms by (metis distinct_map distinct_sort set_sort)
  ultimately have "sorted_wrt (<) ?ts"
    by (simp add: strict_sorted_iff)
  then have "sorted_wrt (\<lambda>a b. row_timestamp a < row_timestamp b) (sort_key row_timestamp rs)"
    by (simp add: sorted_wrt_map)
  then show ?thesis
    by (simp add: order_by_timestamp_desc_def sorted_wrt_rev)
qed

lemma order_desc_mset: "mset (order_by_timestamp_desc rs) = mset rs"
  by (simp add: order_by_timestamp_desc_def)

lemma order_desc_length: "length (order_by_timestamp_desc rs) = length rs"
  by (simp add: order_by_timestamp_desc_def)

lemma sorted_wrt_take_drop:
  assumes "sorted_wrt P xs" and "r \<in> set (take n xs)" and "q \<in> set (drop n xs)"
  shows "P r q"
proof -
  from assms(1) have "sorted_wrt P (take n xs @ drop n xs)" by simp
  with assms(2,3) show ?thesis unfolding sorted_wrt_append by blast
qed

lemma first_page:
  "getInteractionLogs Runs db (Some (int k)) (Some 0) =
     Inr (map row_to_log (take k (order_by_timestamp_desc db)))"
  by (simp add: getInteractionLogs_def sql_select_page_def sql_limit_offset_def)

lemma page_past_the_end:
  "getInteractionLogs Runs db (Some (int k)) (Some (int (length db))) = Inr []"
  by (simp add: getInteractionLogs_def sql_select_page_def sql_limit_offset_def
      order_desc_length)

lemma page_of_empty: "getInteractionLogs Runs [] l off = Inr []"
  by (simp add: getInteractionLogs_def sql_select_page_def sql_limit_offset_def
      order_by_timestamp_desc_def)

lemma parse_stringify:
  "json_value v \<Longrightarrow> \<exists>t. JSON_stringify v = Some t \<and> JSON_parse t = v"
  "json_values vs \<Longrightarrow> parse_elems (stringify_elems vs) = vs"
  "json_props kvs \<Longrightarrow> parse_props (stringify_props kvs) = kvs"
  by (induction v and vs and kvs rule: JSON_stringify_stringify_elems_stringify_props.induct)
     auto

lemma metadata_column_object:
  "json_props props \<Longrightarrow>
   \<exists>t. metadata_column (Some (JObject props)) = Some t \<and> JSON_parse t = JObject props"
  by (simp add: metadata_column_def parse_stringify)

lemma find_new_row:
  "row_id r \<notin> set (map row_id db) \<Longrightarrow> find (\<lambda>x. row_id x = row_id r) (db @ [r]) = Some r"
  by (induction db) auto

lemma js_includes_here: "js_includes (sub @ post) sub"
proof (cases "sub @ post")
  case Nil
  then show ?thesis by simp
next
  case (Cons a list)
  have "take (length sub) (sub @ post) = sub" by simp
  with Cons show ?thesis by simp
qed

lemma js_includes_append: "js_includes (pre @ sub @ post) sub"
  by (induction pre) (simp_all add: js_includes_here)

lemma js_includes_iff: "js_includes s sub \<longleftrightarrow> (\<exists>pre post. s = pre @ sub @ post)"
proof
  show "js_includes s sub \<Longrightarrow> \<exists>pre post. s = pre @ sub @ post"
  proof (induction s)
    case Nil
    then show ?case by simp
  next
    case (Cons c cs)
    show ?case
    proof (cases "take (length sub) (c # cs) = sub")
      case True
      then have "c # cs = [] @ sub @ drop (length sub) (c # cs)"
        by (metis append_Nil append_take_drop_id)
      then show ?thesis by blast
    next
      case False
      with Cons.prems have "js_includes cs sub" by simp
      then obtain pre post where "cs = pre @ sub @ post"
        using Cons.IH by blast
      then have "c # cs = (c # pre) @ sub @ post" by simp
      then show ?thesis by blast
    qed
  qed
next
  show "\<exists>pre post. s = pre @ sub @ post \<Longrightarrow> js_includes s sub"
    using js_includes_append by blast
qed

lemma acknowledgement_embeds_task:
  "js_includes (generic_acknowledgement env request) (req_task request)"
proof -
  obtain post where "generic_acknowledgement env request =
     (''Task completed successfully: '' @ [CHR 0x22]) @ req_task request @ post"
    by (simp add: generic_acknowledgement_def)
  then show ?thesis by (simp only: js_includes_append)
qed

lemma simulate_analyze_leads:
  "simulateTaskProcessing env \<lparr>req_task = ''analyze leads'', req_context = c, req_priority = p\<rparr>
     = Inr r \<Longrightarrow> resp_response r = lead_analysis_report"
  by (auto simp add: simulateTaskProcessing_def toLowerCase_def toLowerChar_def Let_def)

lemma simulate_xyz123:
  "simulateTaskProcessing env \<lparr>req_task = ''xyz123'', req_context = c, req_priority = p\<rparr>
     = Inr r \<Longrightarrow>
   resp_response r =
     generic_acknowledgement env \<lparr>req_task = ''xyz123'', req_context = c, req_priority = p\<rparr>"
  by (auto simp add: simulateTaskProcessing_def toLowerCase_def toLowerChar_def Let_def)


section \<open>The claims\<close>

subsection \<open>Storage faults on reads\<close>

text \<open>
  Claim C1 as stated asks that none of \<open>list\<close>, \<open>getById\<close> and \<open>stats\<close> lets a storage
  fault reach its caller. With the engine raising \<open>disk I/O error\<close>, \<open>getInteractionLogs\<close>
  and \<open>getInteractionLogById\<close> return that fault to the caller.
\<close>

theorem read_fault_counterexample:
  "getInteractionLogs (Raises ''disk I/O error'') [] None None
     = Inl (SqliteFault ''disk I/O error'') \<and>
   getInteractionLogById (Raises ''disk I/O error'') [] ''a''
     = Inl (SqliteFault ''disk I/O error'')"
  by (simp add: getInteractionLogs_def sql_select_page_def getInteractionLogById_def
      sql_select_by_id_def)

text \<open>
  Claim C1, amended: \<open>stats\<close> never lets a storage fault out and answers a fault with the
  three zeros; \<open>list\<close> and \<open>getById\<close> hand every storage fault to their caller, and the
  handlers of \<open>GET /logs\<close> and \<open>GET /logs/:id\<close> turn it into the answer 500.
\<close>

theorem read_faults:
  "(\<exists>s. getStats eng db = Inr s) \<and>
   getStats (Raises m) db
     = Inr \<lparr>totalInteractions = 0, successRate = 0, averageProcessingTime = 0\<rparr> \<and>
   getInteractionLogs (Raises m) db l off = Inl (SqliteFault m) \<and>
   getInteractionLogById (Raises m) db i = Inl (SqliteFault m) \<and>
   http_status (get_logs (Raises m) db limit_q offset_q) = 500 \<and>
   http_status (get_log_by_id (Raises m) db i) = 500"
proof -
  have "\<exists>s. getStats eng db = Inr s"
    by (cases eng) (simp_all add: getStats_def sql_stats_def)
  moreover have "getStats (Raises m) db
     = Inr \<lparr>totalInteractions = 0, successRate = 0, averageProcessingTime = 0\<rparr>"
    by (simp add: getStats_def sql_stats_def)
  moreover have "getInteractionLogs (Raises m) db l off = Inl (SqliteFault m)" for l off
    by (simp add: getInteractionLogs_def sql_select_page_def)
  moreover have "getInteractionLogById (Raises m) db i = Inl (SqliteFault m)"
    by (simp add: getInteractionLogById_def sql_select_by_id_def)
  ultimately show ?thesis
    by (simp add: get_logs_def get_log_by_id_def failure_def)
qed

subsection \<open>Storage faults on deletion\<close>

text \<open>
  Claim C2 as stated asks that a storage fault during \<open>deleteById\<close> or \<open>deleteAll\<close>
  reaches the caller and is told apart from an absent id. With the engine raising
  \<open>database is locked\<close> while row \<open>a\<close> is there, \<open>deleteInteractionLog\<close> returns
  \<open>false\<close> and keeps the row, which is also its result for an id that is absent, and
  \<open>deleteAllInteractionLogs\<close> returns 0.
\<close>

theorem delete_fault_counterexample:
  "deleteInteractionLog (Raises ''database is locked'') [row_a] ''a'' = (Inr False, [row_a]) \<and>
   deleteInteractionLog Runs [row_a] ''zz'' = (Inr False, [row_a]) \<and>
   deleteAllInteractionLogs (Raises ''database is locked'') [row_a] = (Inr 0, [row_a])"
  by (simp add: deleteInteractionLog_def sql_delete_by_id_def deleteAllInteractionLogs_def
      sql_delete_all_def row_a_def)

text \<open>
  Claim C2, amended: \<open>deleteById\<close> and \<open>deleteAll\<close> catch every storage fault; on a fault
  \<open>deleteById\<close> returns \<open>false\<close> and \<open>deleteAll\<close> returns 0, the table is left as it
  was, and the handlers answer 404 and 200.
\<close>

theorem delete_faults_caught:
  "(\<exists>b. fst (deleteInteractionLog eng db i) = Inr b) \<and>
   (\<exists>n. fst (deleteAllInteractionLogs eng db) = Inr n) \<and>
   deleteInteractionLog (Raises m) db i = (Inr False, db) \<and>
   deleteAllInteractionLogs (Raises m) db = (Inr 0, db) \<and>
   http_status (fst (delete_log_by_id (Raises m) db (c # cs))) = 404 \<and>
   http_status (fst (delete_logs (Raises m) db)) = 200"
proof -
  have "\<exists>b. fst (deleteInteractionLog eng db i) = Inr b"
    by (cases eng) (auto simp add: deleteInteractionLog_def sql_delete_by_id_def)
  moreover have "\<exists>n. fst (deleteAllInteractionLogs eng db) = Inr n"
    by (cases eng) (simp_all add: deleteAllInteractionLogs_def sql_delete_all_def)
  moreover have "deleteInteractionLog (Raises m) db i = (Inr False, db)" for i
    by (simp add: deleteInteractionLog_def sql_delete_by_id_def)
  moreover have "deleteAllInteractionLogs (Raises m) db = (Inr 0, db)"
    by (simp add: deleteAllInteractionLogs_def sql_delete_all_def)
  ultimately show ?thesis
    by (simp add: delete_log_by_id_def delete_logs_def failure_def ok_def)
qed

subsection \<open>Statistics\<close>


subsection \<open>Listing\<close>

text \<open>
  Claim C4 as stated asks for strictly descending timestamps. \<open>row_a\<close> and \<open>row_b\<close> carry
  the same timestamp; \<open>list(limit = 2, offset = 0)\<close> returns both, one after the other.
\<close>

theorem list_strict_order_counterexample:
  "map log_timestamp (projr (getInteractionLogs Runs [row_a, row_b] (Some 2) (Some 0)))
     = [''2024-01-01T00:00:00.000Z'', ''2024-01-01T00:00:00.000Z'']"
  by (simp add: getInteractionLogs_def sql_select_page_def sql_limit_offset_def
      order_by_timestamp_desc_def row_a_def row_b_def row_to_log_def)

text \<open>
  Claim C4, amended: with the engine running the query, \<open>list(limit = k, offset = 0)\<close>
  returns \<open>min k N\<close> rows of the table, in descending timestamp order, none of them older
  than a row left out; the order is strict when no two rows of the table share a
  timestamp. \<open>list\<close> with \<open>offset = N\<close> returns the empty sequence, and so does \<open>list\<close>
  on the empty table.
\<close>

theorem getInteractionLogs_newest_first:
  "(\<exists>page rest.
      getInteractionLogs Runs db (Some (int k)) (Some 0) = Inr (map row_to_log page) \<and>
      mset page + mset rest = mset db \<and>
      length page = min k (length db) \<and>
      sorted_wrt (\<lambda>a b. row_timestamp b \<le> row_timestamp a) page \<and>
      (\<forall>r \<in> set page. \<forall>q \<in> set rest. row_timestamp q \<le> row_timestamp r) \<and>
      (distinct (map row_timestamp db) \<longrightarrow>
         sorted_wrt (\<lambda>a b. row_timestamp b < row_timestamp a) page)) \<and>
   getInteractionLogs Runs db (Some (int k)) (Some (int (length db))) = Inr [] \<and>
   getInteractionLogs Runs [] l off = Inr []"
proof -
  let ?s = "order_by_timestamp_desc db"
  have 1: "mset (take k ?s) + mset (drop k ?s) = mset db"
    by (metis append_take_drop_id mset_append order_desc_mset)
  have 2: "length (take k ?s) = min k (length db)"
    by (simp add: order_desc_length)
  have 3: "sorted_wrt (\<lambda>a b. row_timestamp b \<le> row_timestamp a) (take k ?s)"
    by (rule sorted_wrt_take [OF order_desc_sorted])
  have 4: "\<forall>r \<in> set (take k ?s). \<forall>q \<in> set (drop k ?s). row_timestamp q \<le> row_timestamp r"
    using sorted_wrt_take_drop [OF order_desc_sorted] by blast
  have 5: "distinct (map row_timestamp db) \<longrightarrow>
        sorted_wrt (\<lambda>a b. row_timestamp b < row_timestamp a) (take k ?s)"
    using sorted_wrt_take [OF order_desc_strict] by blast
  from first_page 1 2 3 4 5 have "\<exists>page rest.
      getInteractionLogs Runs db (Some (int k)) (Some 0) = Inr (map row_to_log page) \<and>
      mset page + mset rest = mset db \<and>
      length page = min k (length db) \<and>
      sorted_wrt (\<lambda>a b. row_timestamp b \<le> row_timestamp a) page \<and>
      (\<forall>r \<in> set page. \<forall>q \<in> set rest. row_timestamp q \<le> row_timestamp r) \<and>
      (distinct (map row_timestamp db) \<longrightarrow>
         sorted_wrt (\<lambda>a b. row_timestamp b < row_timestamp a) page)"
    by blast
  with page_past_the_end page_of_empty show ?thesis by blast
qed

theorem getInteractionLogs_newest_first_witness:
  "distinct (map row_timestamp [row_a, row_c]) \<and>
   getInteractionLogs Runs [row_a, row_c] (Some 1) (Some 0) = Inr [row_to_log row_c] \<and>
   (\<exists>page rest.
      getInteractionLogs Runs [row_a, row_c] (Some 1) (Some 0) = Inr (map row_to_log page) \<and>
      mset page + mset rest = mset [row_a, row_c] \<and>
      length page = 1 \<and>
      (\<forall>r \<in> set page. \<forall>q \<in> set rest. row_timestamp q \<le> row_timestamp r) \<and>
      sorted_wrt (\<lambda>a b. row_timestamp b < row_timestamp a) page)"
proof -
  have d: "distinct (map row_timestamp [row_a, row_c])"
    by (simp add: row_a_def row_c_def)
  have e: "getInteractionLogs Runs [row_a, row_c] (Some 1) (Some 0) = Inr [row_to_log row_c]"
    by (simp add: getInteractionLogs_def sql_select_page_def sql_limit_offset_def
        order_by_timestamp_desc_def row_a_def row_c_def)
  from getInteractionLogs_newest_first [of "[row_a, row_c]" 1 None None]
  obtain page rest where
    p: "getInteractionLogs Runs [row_a, row_c] (Some (int 1)) (Some 0)
          = Inr (map row_to_log page)"
      "mset page + mset rest = mset [row_a, row_c]"
      "length page = min 1 (length [row_a, row_c])"
      "\<forall>r \<in> set page. \<forall>q \<in> set rest. row_timestamp q \<le> row_timestamp r"
      "distinct (map row_timestamp [row_a, row_c]) \<longrightarrow>
         sorted_wrt (\<lambda>a b. row_timestamp b < row_timestamp a) page"
    by blast
  from p(1) have p1: "getInteractionLogs Runs [row_a, row_c] (Some 1) (Some 0)
          = Inr (map row_to_log page)"
    by simp
  from p(3) have p3: "length page = 1" by simp
  from p(5) d have p5: "sorted_wrt (\<lambda>a b. row_timestamp b < row_timestamp a) page"
    by blast
  from p1 p(2) p3 p(4) p5 d e show ?thesis by blast
qed

subsection \<open>The invariant of the table\<close>

text \<open>
  Claim C5: the empty table satisfies the invariant (unique ids, \<open>status\<close> one of the two
  values), and \<open>save\<close>, \<open>deleteById\<close> and \<open>deleteAll\<close> keep it, whatever the engine does
  (the reading methods return no new state). \<open>save\<close> fails with a storage error and
  leaves the table as it was whenever the id of the log is the id of a row or the status
  of the log is not one of the two values.
\<close>

theorem store_invariant:
  "store_inv [] \<and>
   (store_inv db \<longrightarrow>
      store_inv (snd (saveInteractionLog eng db lg)) \<and>
      store_inv (snd (deleteInteractionLog eng db i)) \<and>
      store_inv (snd (deleteAllInteractionLogs eng db))) \<and>
   (log_id lg \<in> set (map row_id db) \<or> \<not> check_status (log_status lg) \<longrightarrow>
      (\<exists>e. saveInteractionLog eng db lg = (Inl e, db)))"
proof -
  have "store_inv []" by (simp add: store_inv_def)
  then show ?thesis
    using save_keeps_inv delete_keeps_inv delete_all_keeps_inv save_rejects by blast
qed

theorem store_invariant_witness:
  "store_inv [row_a, row_b] \<and>
   log_id log_duplicate \<in> set (map row_id [row_a, row_b]) \<and>
   saveInteractionLog Runs [row_a, row_b] log_duplicate
     = (Inl SqliteConstraintPrimaryKey, [row_a, row_b]) \<and>
   store_inv (snd (saveInteractionLog Runs [row_a, row_b] log_no_context)) \<and>
   store_inv (snd (deleteInteractionLog Runs [row_a, row_b] ''a'')) \<and>
   store_inv (snd (deleteAllInteractionLogs Runs [row_a, row_b])) \<and>
   (\<exists>e. saveInteractionLog Runs [row_a, row_b] log_duplicate = (Inl e, [row_a, row_b]))"
proof -
  have inv: "store_inv [row_a, row_b]"
    by (simp add: store_inv_def row_a_def row_b_def check_status_def)
  have dup: "log_id log_duplicate \<in> set (map row_id [row_a, row_b])"
    by (simp add: log_duplicate_def row_a_def)
  have err: "saveInteractionLog Runs [row_a, row_b] log_duplicate
     = (Inl SqliteConstraintPrimaryKey, [row_a, row_b])"
    by (simp add: saveInteractionLog_def sql_insert_def log_duplicate_def row_a_def row_b_def
        check_status_def)
  from store_invariant [of "[row_a, row_b]" Runs log_no_context "''a''"] inv
  have keep: "store_inv (snd (saveInteractionLog Runs [row_a, row_b] log_no_context)) \<and>
      store_inv (snd (deleteInteractionLog Runs [row_a, row_b] ''a'')) \<and>
      store_inv (snd (deleteAllInteractionLogs Runs [row_a, row_b]))"
    by blast
  from store_invariant [of "[row_a, row_b]" Runs log_duplicate "''a''"] dup
  have "\<exists>e. saveInteractionLog Runs [row_a, row_b] log_duplicate = (Inl e, [row_a, row_b])"
    by blast
  with inv dup err keep show ?thesis by blast
qed

subsection \<open>The live strategy\<close>

text \<open>
  Claim C6: for every request, every backend and every surrounding, \<open>processTask\<close>
  returns a result and throws nothing; when the generation call fails with \<open>e\<close>, the
  result has \<open>status = error\<close>, the response \<open>Error processing task: \<close> followed by the
  message of \<open>e\<close>, and \<open>metadata.error\<close> the message of \<open>e\<close>.
\<close>

theorem processTask_never_raises:
  "\<exists>r. processTask env create request = Inr r \<and>
       (\<forall>e. create (getSystemPrompt (req_task request)) (buildUserPrompt request) = Inl e \<longrightarrow>
            resp_status r = ''error'' \<and>
            resp_response r = ''Error processing task: '' @ error_message e \<and>
            metadata_field r ''error'' = Some (JString (error_message e)))"
  by (cases "create (getSystemPrompt (req_task request)) (buildUserPrompt request)")
     (simp_all add: processTask_def generateResponse_def metadata_field_def)

theorem processTask_never_raises_witness:
  "rejecting_backend (getSystemPrompt (req_task request0)) (buildUserPrompt request0)
     = Inl (ErrorObject ''401 Incorrect API key provided'') \<and>
   (\<exists>r. processTask env0 rejecting_backend request0 = Inr r \<and>
        resp_status r = ''error'' \<and>
        resp_response r = ''Error processing task: 401 Incorrect API key provided'' \<and>
        metadata_field r ''error'' = Some (JString ''401 Incorrect API key provided''))"
proof -
  have f: "rejecting_backend (getSystemPrompt (req_task request0)) (buildUserPrompt request0)
     = Inl (ErrorObject ''401 Incorrect API key provided'')"
    by (simp add: rejecting_backend_def)
  from processTask_never_raises [of env0 rejecting_backend request0] f
  show ?thesis by (auto simp: error_message_def)
qed

subsection \<open>Rejected submissions\<close>

text \<open>
  Claim C7: a \<open>POST /tasks/process\<close> whose \<open>task\<close> is missing or not a string, or is
  a string that trimming leaves empty, is answered with status 400, and the table after
  the request is the table before it.
\<close>

theorem rejected_task_not_logged:
  "(\<forall>s. body_task req \<noteq> JString s) \<or> (\<exists>s. body_task req = JString s \<and> js_trim s = []) \<Longrightarrow>
   http_status (fst (post_process api_key env create eng db req)) = 400 \<and>
   snd (post_process api_key env create eng db req) = db"
  by (cases "body_task req")
     (auto simp: post_process_def task_rejected_def not_a_string_def string_of_def failure_def)

theorem rejected_task_not_logged_witness:
  "body_task blank_request = JString ''  '' \<and> js_trim ''  '' = [] \<and>
   http_status (fst (post_process None env0 rejecting_backend Runs [row_a] blank_request)) = 400 \<and>
   snd (post_process None env0 rejecting_backend Runs [row_a] blank_request) = [row_a]"
proof -
  have b: "body_task blank_request = JString ''  ''"
    by (simp add: blank_request_def)
  have t: "js_trim ''  '' = []"
    by (simp add: js_trim_def trimStart_def trimEnd_def white_space_def leading_def)
  from b t have "\<exists>s. body_task blank_request = JString s \<and> js_trim s = []"
    by blast
  then have "(\<forall>s. body_task blank_request \<noteq> JString s) \<or>
        (\<exists>s. body_task blank_request = JString s \<and> js_trim s = [])"
    by blast
  from rejected_task_not_logged [OF this, of None env0 rejecting_backend Runs "[row_a]"] b t
  show ?thesis by blast
qed

subsection \<open>Metadata\<close>

text \<open>
  Claim C8 as stated asks that every metadata bag reads back equal to what was saved.
  The bag that the simulation strategy builds for a request without context has a
  property \<open>context\<close> whose value is \<open>undefined\<close>; saved into the empty table and read
  back by id, the bag has lost that property. A bag holding \<open>NaN\<close> reads back holding
  \<open>null\<close>.
\<close>

theorem metadata_roundtrip_counterexample:
  "log_metadata log_no_context
     = Some (JObject [(''priority'', JString ''medium''), (''context'', JUndefined),
                      (''simulated'', JBool True)]) \<and>
   fst (saveInteractionLog Runs [] log_no_context) = Inr () \<and>
   map_option log_metadata
     (projr (getInteractionLogById Runs (snd (saveInteractionLog Runs [] log_no_context))
               ''id-1''))
     = Some (Some (JObject [(''priority'', JString ''medium''), (''simulated'', JBool True)])) \<and>
   log_metadata log_nan = Some (JObject [(''score'', JNumber NaN)]) \<and>
   fst (saveInteractionLog Runs [] log_nan) = Inr () \<and>
   map_option log_metadata
     (projr (getInteractionLogById Runs (snd (saveInteractionLog Runs [] log_nan)) ''id-3''))
     = Some (Some (JObject [(''score'', JNull)]))"
  by (simp add: log_no_context_def log_nan_def saveInteractionLog_def sql_insert_def
      check_status_def getInteractionLogById_def sql_select_by_id_def row_to_log_def
      metadata_column_def)

text \<open>
  Claim C8, amended: for every log whose metadata bag holds only values that JSON writes
  as they are (no \<open>undefined\<close>, \<open>NaN\<close>, infinity or negative zero at any depth), saving
  the log and then reading it back by id returns a metadata value equal to the original.
\<close>

theorem metadata_roundtrip:
  assumes "log_metadata lg = Some (JObject props)" and "json_props props"
    and "saveInteractionLog Runs db lg = (Inr (), db')"
  shows "\<exists>lg'. getInteractionLogById Runs db' (log_id lg) = Inr (Some lg') \<and>
               log_metadata lg' = Some (JObject props)"
proof -
  obtain t where t: "metadata_column (log_metadata lg) = Some t" "JSON_parse t = JObject props"
    using metadata_column_object [OF assms(2)] assms(1) by auto
  define r where "r = \<lparr>row_id = log_id lg, row_task = log_task lg,
        row_response = log_response lg, row_status = log_status lg,
        row_timestamp = log_timestamp lg, row_processing_time = log_processingTime lg,
        row_user_agent = or_null (log_userAgent lg), row_ip_address = or_null (log_ipAddress lg),
        row_metadata = metadata_column (log_metadata lg)\<rparr>"
  from assms(3) have new: "row_id r \<notin> set (map row_id db)" and db': "db' = db @ [r]"
    by (auto simp: saveInteractionLog_def sql_insert_def r_def split: if_splits)
  have "find (\<lambda>x. row_id x = log_id lg) db' = Some r"
    using find_new_row [OF new] by (simp add: db' r_def)
  then have "getInteractionLogById Runs db' (log_id lg) = Inr (Some (row_to_log r))"
    by (simp add: getInteractionLogById_def sql_select_by_id_def)
  moreover have "log_metadata (row_to_log r) = Some (JObject props)"
    using t by (simp add: row_to_log_def r_def)
  ultimately show ?thesis by blast
qed

theorem metadata_roundtrip_witness:
  "json_props [(''priority'', JString ''high''), (''context'', JString ''Q4 sales data''),
               (''simulated'', JBool True)] \<and>
   (\<exists>db'. saveInteractionLog Runs [row_a] log_with_context = (Inr (), db') \<and>
      (\<exists>lg'. getInteractionLogById Runs db' ''id-2'' = Inr (Some lg') \<and>
         log_metadata lg' = Some (JObject [(''priority'', JString ''high''),
                                          (''context'', JString ''Q4 sales data''),
                                          (''simulated'', JBool True)])))"
proof -
  let ?props = "[(''priority'', JString ''high''), (''context'', JString ''Q4 sales data''),
                 (''simulated'', JBool True)]"
  have m: "log_metadata log_with_context = Some (JObject ?props)"
    by (simp add: log_with_context_def)
  have j: "json_props ?props" by simp
  obtain db' where s: "saveInteractionLog Runs [row_a] log_with_context = (Inr (), db')"
    by (simp add: saveInteractionLog_def sql_insert_def log_with_context_def row_a_def
        check_status_def)
  have i: "log_id log_with_context = ''id-2''"
    by (simp add: log_with_context_def)
  from metadata_roundtrip [OF m j s] i j s show ?thesis by auto
qed

subsection \<open>The simulation strategy\<close>

text \<open>
  Claim C9: the simulation strategy, called with the task \<open>analyze leads\<close>, returns
  \<open>status = success\<close> and a response containing \<open>Lead Analysis Report\<close>; called with
  the task \<open>xyz123\<close>, it returns a response containing \<open>xyz123\<close>; and for every request
  the result has \<open>status = success\<close> and \<open>metadata.simulated = true\<close>.
\<close>

theorem simulation_results:
  "(\<exists>r. simulateTaskProcessing env
           \<lparr>req_task = ''analyze leads'', req_context = c, req_priority = p\<rparr> = Inr r \<and>
        resp_status r = ''success'' \<and>
        js_includes (resp_response r) ''Lead Analysis Report'') \<and>
   (\<exists>r. simulateTaskProcessing env
           \<lparr>req_task = ''xyz123'', req_context = c, req_priority = p\<rparr> = Inr r \<and>
        js_includes (resp_response r) ''xyz123'') \<and>
   (\<exists>r. simulateTaskProcessing env request = Inr r \<and>
        resp_status r = ''success'' \<and>
        metadata_field r ''simulated'' = Some (JBool True))"
proof -
  let ?leads = "\<lparr>req_task = ''analyze leads'', req_context = c, req_priority = p\<rparr>"
  let ?xyz = "\<lparr>req_task = ''xyz123'', req_context = c, req_priority = p\<rparr>"
  have general: "\<exists>r. simulateTaskProcessing env q = Inr r \<and> resp_status r = ''success'' \<and>
        metadata_field r ''simulated'' = Some (JBool True)" for q
    by (simp add: simulateTaskProcessing_def Let_def metadata_field_def)
  obtain r1 where r1: "simulateTaskProcessing env ?leads = Inr r1" "resp_status r1 = ''success''"
    using general by blast
  have "resp_response r1 = lead_analysis_report"
    using simulate_analyze_leads [OF r1(1)] .
  then have "js_includes (resp_response r1) ''Lead Analysis Report''"
    by (simp add: lead_analysis_report_def)
  with r1 have first: "\<exists>r. simulateTaskProcessing env ?leads = Inr r \<and>
        resp_status r = ''success'' \<and> js_includes (resp_response r) ''Lead Analysis Report''"
    by blast
  obtain r2 where r2: "simulateTaskProcessing env ?xyz = Inr r2"
    using general by blast
  have "js_includes (resp_response r2) (req_task ?xyz)"
    unfolding simulate_xyz123 [OF r2] by (rule acknowledgement_embeds_task)
  then have "js_includes (resp_response r2) ''xyz123''" by simp
  with r2 have second: "\<exists>r. simulateTaskProcessing env ?xyz = Inr r \<and>
        js_includes (resp_response r) ''xyz123''"
    by blast
  from first second general show ?thesis by blast
qed

subsection \<open>The limit of a listing request\<close>



end
